theory Spec2Isabelle
  imports Complex_Main "HOL-Library.AList"
begin

section \<open>Synthetic data generator: shallow embedding\<close>

text \<open>
  The embedded program is \<^verbatim>\<open>tests/e2e/synthetic_data_generator.py\<close>.
  Python floats are idealised as real numbers, Python ints are \<^typ>\<open>int\<close>.
  A Python dict is an association list in insertion order (the generator emits one
  record per entry of \<^verbatim>\<open>base_values.items()\<close>, so the order is observable).
\<close>

subsection \<open>Errors\<close>

datatype error = ZeroDivisionError | KafkaException

subsection \<open>The random module\<close>

text \<open>
  The module-level generator of \<^verbatim>\<open>random\<close> is unseeded. It is modelled as a fixed
  but arbitrary source that fixes what the \<open>n\<close>-th call returns; the state threaded
  through the program is the number of calls made so far.
  \<^item> \<open>gauss_at\<close>: the standard normal variate behind \<^verbatim>\<open>random.gauss\<close>;
  \<^item> \<open>random_at\<close>: the result of \<^verbatim>\<open>random.random()\<close>, in \<open>[0, 1)\<close>;
  \<^item> \<open>index_at\<close>: the index drawn by \<^verbatim>\<open>random.choice\<close>.
\<close>

record random_source =
  gauss_at :: "nat \<Rightarrow> real"
  random_at :: "nat \<Rightarrow> real"
  index_at :: "nat \<Rightarrow> nat"

definition random_gauss :: "random_source \<Rightarrow> real \<Rightarrow> real \<Rightarrow> nat \<Rightarrow> real \<times> nat" where
  "random_gauss src mu sigma n = (mu + gauss_at src n * sigma, Suc n)"

definition random_random :: "random_source \<Rightarrow> nat \<Rightarrow> real \<times> nat" where
  "random_random src n = (random_at src n, Suc n)"

definition random_uniform :: "random_source \<Rightarrow> real \<Rightarrow> real \<Rightarrow> nat \<Rightarrow> real \<times> nat" where
  "random_uniform src a b n = (a + (b - a) * random_at src n, Suc n)"

text \<open>\<^verbatim>\<open>random.choice(xs)\<close> returns the element at an index below \<open>len(xs)\<close>.\<close>

definition random_choice :: "random_source \<Rightarrow> 'a list \<Rightarrow> nat \<Rightarrow> 'a \<times> nat" where
  "random_choice src xs n = (xs ! (index_at src n mod length xs), Suc n)"

subsection \<open>Dict objects on a heap\<close>

text \<open>
  \<^verbatim>\<open>apply\<close> receives a reference to a dict and returns a reference to a dict. To
  talk about mutation of the argument, dict objects live on a heap: a list of dicts,
  addressed by position. \<^verbatim>\<open>d.copy()\<close> allocates a new object.
\<close>

type_synonym dict = "(string \<times> real) list"
type_synonym heap = "dict list"
type_synonym ref = nat

definition dict_copy :: "heap \<Rightarrow> ref \<Rightarrow> ref \<times> heap" where
  "dict_copy h r = (length h, h @ [h ! r])"

definition dict_contains :: "heap \<Rightarrow> ref \<Rightarrow> string \<Rightarrow> bool" where
  "dict_contains h r k = (map_of (h ! r) k \<noteq> None)"

text \<open>\<^verbatim>\<open>d[k] = f(d[k])\<close>, as in \<^verbatim>\<open>d[k] += x\<close>; only executed under \<^verbatim>\<open>if k in d\<close>.\<close>

definition dict_modify :: "heap \<Rightarrow> ref \<Rightarrow> string \<Rightarrow> (real \<Rightarrow> real) \<Rightarrow> heap" where
  "dict_modify h r k f = h[r := AList.map_entry k f (h ! r)]"

subsection \<open>Failure modes\<close>

text \<open>
  The class hierarchy \<^verbatim>\<open>FailureMode\<close> / \<^verbatim>\<open>BearingWearFailure\<close> /
  \<^verbatim>\<open>MisalignmentFailure\<close> / \<^verbatim>\<open>CavitationFailure\<close>; the argument of each
  constructor is \<^verbatim>\<open>self.severity\<close>.
\<close>

datatype failure =
    FailureMode real
  | BearingWearFailure real
  | MisalignmentFailure real
  | CavitationFailure real

fun severity :: "failure \<Rightarrow> real" where
  "severity (FailureMode s) = s"
| "severity (BearingWearFailure s) = s"
| "severity (MisalignmentFailure s) = s"
| "severity (CavitationFailure s) = s"

text \<open>
  \<^verbatim>\<open>apply(self, timestamp, base_values)\<close>. The state is the heap and the number of
  random calls made; the result is the returned reference and the new state.
\<close>

fun apply_failure ::
  "random_source \<Rightarrow> failure \<Rightarrow> real \<Rightarrow> ref \<Rightarrow> heap \<times> nat \<Rightarrow> ref \<times> heap \<times> nat" where
  "apply_failure src (FailureMode s) timestamp base_values (h, n) = (base_values, h, n)"
| "apply_failure src (BearingWearFailure s) timestamp base_values (h, n) =
     (let hours_since_start = timestamp / 3600;
          degradation_factor = min 1 (hours_since_start / 240);
          (modified, h0) = dict_copy h base_values;
          h1 = (if dict_contains h0 modified ''vibration_vel_mm_s''
                then dict_modify h0 modified ''vibration_vel_mm_s''
                       (\<lambda>v. v + (5 + 10 * degradation_factor) * s)
                else h0);
          h2 = (if dict_contains h1 modified ''bearing_temp_c''
                then dict_modify h1 modified ''bearing_temp_c''
                       (\<lambda>v. v + (10 + 20 * degradation_factor) * s)
                else h1)
      in (modified, h2, n))"
| "apply_failure src (MisalignmentFailure s) timestamp base_values (h, n) =
     (let (modified, h0) = dict_copy h base_values;
          h1 = (if dict_contains h0 modified ''vibration_vel_mm_s''
                then dict_modify h0 modified ''vibration_vel_mm_s'' (\<lambda>v. v + 3 * s)
                else h0);
          h2 = (if dict_contains h1 modified ''bearing_temp_c''
                then dict_modify h1 modified ''bearing_temp_c'' (\<lambda>v. v + 5 * s)
                else h1)
      in (modified, h2, n))"
| "apply_failure src (CavitationFailure s) timestamp base_values (h, n) =
     (let (modified, h0) = dict_copy h base_values;
          h1 = (if dict_contains h0 modified ''discharge_pressure_bar''
                then dict_modify h0 modified ''discharge_pressure_bar''
                       (\<lambda>v. v * (1 - 0.3 * s))
                else h0);
          (h2, n2) = (if dict_contains h1 modified ''vibration_vel_mm_s''
                then (let (u, n') = random_uniform src 0 5 n;
                          cavitation_noise = u * s
                      in (dict_modify h1 modified ''vibration_vel_mm_s''
                            (\<lambda>v. v + cavitation_noise), n'))
                else (h1, n));
          (h3, n3) = (if dict_contains h2 modified ''motor_current_a''
                then (let (u, n') = random_uniform src (- 5) 5 n2;
                          current_variation = u * s
                      in (dict_modify h2 modified ''motor_current_a''
                            (\<lambda>v. v + current_variation), n'))
                else (h2, n2))
      in (modified, h3, n3))"

text \<open>
  The generator holds its dict in a local variable; running \<open>apply_failure\<close> on a
  heap that contains just that dict gives the dict the caller continues with.
\<close>

definition apply_values ::
  "random_source \<Rightarrow> failure \<Rightarrow> real \<Rightarrow> dict \<Rightarrow> nat \<Rightarrow> dict \<times> nat" where
  "apply_values src fm timestamp base_values n =
     (let (r, h, n') = apply_failure src fm timestamp 0 ([base_values], n)
      in (h ! r, n'))"

text \<open>The keys a failure mode reads or writes.\<close>

fun recognized :: "failure \<Rightarrow> string list" where
  "recognized (FailureMode s) = []"
| "recognized (BearingWearFailure s) = [''vibration_vel_mm_s'', ''bearing_temp_c'']"
| "recognized (MisalignmentFailure s) = [''vibration_vel_mm_s'', ''bearing_temp_c'']"
| "recognized (CavitationFailure s) =
     [''discharge_pressure_bar'', ''vibration_vel_mm_s'', ''motor_current_a'']"


subsection \<open>Asset configuration and sensor tables\<close>

record asset_config =
  asset_id :: string
  plant :: string
  asset_class :: string
  vendor :: string
  failure_mode :: "string option"
  failure_start_hours :: "real option"
  failure_severity :: real

text \<open>Python truthiness of an \<^verbatim>\<open>Optional[str]\<close>, an \<^verbatim>\<open>Optional[float]\<close> and of
  an int-or-\<^verbatim>\<open>None\<close>: \<^verbatim>\<open>None\<close>, the empty string and zero are false.\<close>

fun truthy_str :: "string option \<Rightarrow> bool" where
  "truthy_str None = False"
| "truthy_str (Some s) = (s \<noteq> [])"

fun truthy_float :: "real option \<Rightarrow> bool" where
  "truthy_float None = False"
| "truthy_float (Some x) = (x \<noteq> 0)"

fun truthy_int :: "int option \<Rightarrow> bool" where
  "truthy_int None = False"
| "truthy_int (Some x) = (x \<noteq> 0)"

text \<open>\<^verbatim>\<open>self.failure_modes\<close>: the name of a failure mode to its class.\<close>

definition failure_modes :: "(string \<times> (real \<Rightarrow> failure)) list" where
  "failure_modes =
     [(''bearing_wear'', BearingWearFailure),
      (''misalignment'', MisalignmentFailure),
      (''cavitation'', CavitationFailure)]"

record sensor_params =
  base :: real
  noise :: real
  range_p :: "real \<times> real"

definition pump_config :: "(string \<times> sensor_params) list" where
  "pump_config =
     [(''vibration_vel_mm_s'', \<lparr>base = 5, noise = 0.5, range_p = (0, 50)\<rparr>),
      (''bearing_temp_c'', \<lparr>base = 60, noise = 2, range_p = (20, 120)\<rparr>),
      (''motor_current_a'', \<lparr>base = 75, noise = 3, range_p = (0, 150)\<rparr>),
      (''discharge_pressure_bar'', \<lparr>base = 15, noise = 1, range_p = (0, 30)\<rparr>),
      (''ambient_temp_c'', \<lparr>base = 25, noise = 2, range_p = (10, 40)\<rparr>)]"

definition compressor_config :: "(string \<times> sensor_params) list" where
  "compressor_config =
     [(''vibration_vel_mm_s'', \<lparr>base = 8, noise = 1, range_p = (0, 50)\<rparr>),
      (''bearing_temp_c'', \<lparr>base = 80, noise = 3, range_p = (30, 130)\<rparr>),
      (''motor_current_a'', \<lparr>base = 90, noise = 5, range_p = (0, 200)\<rparr>),
      (''discharge_pressure_bar'', \<lparr>base = 25, noise = 2, range_p = (0, 50)\<rparr>),
      (''ambient_temp_c'', \<lparr>base = 25, noise = 2, range_p = (10, 40)\<rparr>)]"

definition motor_config :: "(string \<times> sensor_params) list" where
  "motor_config =
     [(''vibration_vel_mm_s'', \<lparr>base = 3, noise = 0.3, range_p = (0, 30)\<rparr>),
      (''bearing_temp_c'', \<lparr>base = 70, noise = 2, range_p = (25, 110)\<rparr>),
      (''motor_current_a'', \<lparr>base = 60, noise = 3, range_p = (0, 120)\<rparr>),
      (''ambient_temp_c'', \<lparr>base = 25, noise = 2, range_p = (10, 40)\<rparr>)]"

definition fan_config :: "(string \<times> sensor_params) list" where
  "fan_config =
     [(''vibration_vel_mm_s'', \<lparr>base = 4, noise = 0.5, range_p = (0, 25)\<rparr>),
      (''bearing_temp_c'', \<lparr>base = 50, noise = 2, range_p = (20, 90)\<rparr>),
      (''motor_current_a'', \<lparr>base = 45, noise = 2, range_p = (0, 100)\<rparr>),
      (''ambient_temp_c'', \<lparr>base = 25, noise = 2, range_p = (10, 40)\<rparr>)]"

definition sensor_configs :: "(string \<times> (string \<times> sensor_params) list) list" where
  "sensor_configs =
     [(''pump'', pump_config),
      (''compressor'', compressor_config),
      (''motor'', motor_config),
      (''fan'', fan_config)]"

text \<open>\<^verbatim>\<open>str.lower()\<close> on the ASCII letters (a \<^typ>\<open>string\<close> is a list of bytes).\<close>

definition lower_char :: "char \<Rightarrow> char" where
  "lower_char c =
     (case map_of (zip ''ABCDEFGHIJKLMNOPQRSTUVWXYZ'' ''abcdefghijklmnopqrstuvwxyz'') c of
        Some c' \<Rightarrow> c'
      | None \<Rightarrow> c)"

definition lower :: "string \<Rightarrow> string" where
  "lower s = map lower_char s"

text \<open>\<^verbatim>\<open>self.sensor_configs.get(asset_class.lower(), self.sensor_configs['pump'])\<close>\<close>

definition config_for :: "string \<Rightarrow> (string \<times> sensor_params) list" where
  "config_for cls =
     (case map_of sensor_configs (lower cls) of
        Some config \<Rightarrow> config
      | None \<Rightarrow> the (map_of sensor_configs ''pump''))"

subsection \<open>Base values\<close>

text \<open>Python's \<^verbatim>\<open>x % m\<close> on floats, for a positive \<open>m\<close>: the result is in \<open>[0, m)\<close>.\<close>

definition fmod :: "real \<Rightarrow> real \<Rightarrow> real" where
  "fmod x m = x - m * of_int \<lfloor>x / m\<rfloor>"

text \<open>The loop \<^verbatim>\<open>for sensor, params in config.items()\<close>; \<^verbatim>\<open>values[sensor] = value\<close>
  is \<open>AList.update\<close>.\<close>

fun base_values_loop ::
  "random_source \<Rightarrow> real \<Rightarrow> real \<Rightarrow> (string \<times> sensor_params) list \<Rightarrow> dict \<times> nat \<Rightarrow> dict \<times> nat" where
  "base_values_loop src daily_factor weekly_factor [] (values, n) = (values, n)"
| "base_values_loop src daily_factor weekly_factor ((sensor, params) # rest) (values, n) =
     (let base_value = base params * daily_factor * weekly_factor;
          (noise_draw, n') = random_gauss src 0 (noise params) n;
          value0 = base_value + noise_draw;
          value1 = max (fst (range_p params)) (min (snd (range_p params)) value0)
      in base_values_loop src daily_factor weekly_factor rest
           (AList.update sensor value1 values, n'))"

definition generate_base_values :: "random_source \<Rightarrow> string \<Rightarrow> real \<Rightarrow> nat \<Rightarrow> dict \<times> nat" where
  "generate_base_values src cls timestamp n =
     (let config = config_for cls;
          hour_of_day = fmod timestamp (24 * 3600) / 3600;
          day_of_week = fmod timestamp (7 * 24 * 3600) / (24 * 3600);
          daily_factor = 1 + 0.1 * sin (2 * pi * hour_of_day / 24);
          weekly_factor = 1 + 0.05 * sin (2 * pi * day_of_week / 7)
      in base_values_loop src daily_factor weekly_factor config ([], n))"

subsection \<open>Data points\<close>

datatype quality = GOOD | BAD | NO_DATA | SUSPECT

record data_point =
  ts :: int
  dp_asset_id :: string
  tag :: string
  dp_value :: "real option"
  q :: quality

text \<open>\<^verbatim>\<open>int(x)\<close> on a float truncates towards zero.\<close>

definition py_int :: "real \<Rightarrow> int" where
  "py_int x = (if 0 \<le> x then \<lfloor>x\<rfloor> else \<lceil>x\<rceil>)"

text \<open>The body of \<^verbatim>\<open>for sensor, value in base_values.items()\<close>: the quality draw and
  the data point built from it.\<close>

definition make_data_point ::
  "random_source \<Rightarrow> asset_config \<Rightarrow> real \<Rightarrow> string \<Rightarrow> real \<Rightarrow> nat \<Rightarrow> data_point \<times> nat" where
  "make_data_point src asset unix_timestamp sensor value0 n =
     (let (u, n1) = random_random src n;
          (quality, value1, n2) =
            (if u < 0.01
             then (let (c, n') = random_choice src [BAD, NO_DATA, SUSPECT] n1
                   in (c, if c = NO_DATA then None else Some value0, n'))
             else (GOOD, Some value0, n1))
      in (\<lparr>ts = py_int (unix_timestamp * 1000),
           dp_asset_id = asset_id asset,
           tag = sensor,
           dp_value = value1,
           q = quality\<rparr>, n2))"

fun data_points_loop ::
  "random_source \<Rightarrow> asset_config \<Rightarrow> real \<Rightarrow> dict \<Rightarrow> data_point list \<times> nat
     \<Rightarrow> data_point list \<times> nat" where
  "data_points_loop src asset unix_timestamp [] (data_points, n) = (data_points, n)"
| "data_points_loop src asset unix_timestamp ((sensor, value0) # rest) (data_points, n) =
     (let (data_point, n') = make_data_point src asset unix_timestamp sensor value0 n
      in data_points_loop src asset unix_timestamp rest (data_points @ [data_point], n'))"

subsection \<open>Generating the data of one asset\<close>

text \<open>
  \<open>start_time\<close> is \<^verbatim>\<open>start_time.timestamp()\<close>, in seconds; adding a
  \<^verbatim>\<open>timedelta\<close> of \<open>k\<close> seconds adds \<open>k\<close> to it (no change of the local UTC offset
  during the run).
\<close>

definition init_failure_mode :: "asset_config \<Rightarrow> failure option" where
  "init_failure_mode asset =
     (if truthy_str (failure_mode asset) \<and> truthy_float (failure_start_hours asset)
      then (case map_of failure_modes (the (failure_mode asset)) of
              Some failure_class \<Rightarrow> Some (failure_class (failure_severity asset))
            | None \<Rightarrow> None)
      else None)"

text \<open>One iteration of \<^verbatim>\<open>for i in range(total_points)\<close>, in two parts. First the
  values of the step: the base values, put through the failure mode when it is active.\<close>

definition step_values ::
  "random_source \<Rightarrow> asset_config \<Rightarrow> failure option \<Rightarrow> real \<Rightarrow> int \<Rightarrow> int \<Rightarrow> nat
     \<Rightarrow> dict \<times> nat" where
  "step_values src asset fm start_time interval_seconds i n =
     (let unix_timestamp = start_time + of_int (i * interval_seconds);
          (base_values, n1) = generate_base_values src (asset_class asset) unix_timestamp n
      in if fm \<noteq> None \<and> truthy_float (failure_start_hours asset) \<and>
            of_int (i * interval_seconds) \<ge> the (failure_start_hours asset) * 3600
         then (let failure_duration =
                     unix_timestamp - (start_time + the (failure_start_hours asset) * 3600)
               in apply_values src (the fm) failure_duration base_values n1)
         else (base_values, n1))"

text \<open>Then the data points of the step. The progress log at the end of the iteration
  evaluates \<^verbatim>\<open>i % (total_points // 10)\<close>, which raises when the divisor is zero.\<close>

definition generate_step ::
  "random_source \<Rightarrow> asset_config \<Rightarrow> failure option \<Rightarrow> real \<Rightarrow> int \<Rightarrow> int \<Rightarrow> int
     \<Rightarrow> data_point list \<times> nat \<Rightarrow> error + data_point list \<times> nat" where
  "generate_step src asset fm start_time interval_seconds total_points i st =
     (let unix_timestamp = start_time + of_int (i * interval_seconds);
          (base_values, n2) = step_values src asset fm start_time interval_seconds i (snd st);
          st' = data_points_loop src asset unix_timestamp base_values (fst st, n2)
      in if total_points div 10 = 0 then Inl ZeroDivisionError else Inr st')"

fun generate_loop ::
  "random_source \<Rightarrow> asset_config \<Rightarrow> failure option \<Rightarrow> real \<Rightarrow> int \<Rightarrow> int \<Rightarrow> int list
     \<Rightarrow> data_point list \<times> nat \<Rightarrow> error + data_point list \<times> nat" where
  "generate_loop src asset fm start_time interval_seconds total_points [] st = Inr st"
| "generate_loop src asset fm start_time interval_seconds total_points (i # rest) st =
     (case generate_step src asset fm start_time interval_seconds total_points i st of
        Inl e \<Rightarrow> Inl e
      | Inr st' \<Rightarrow> generate_loop src asset fm start_time interval_seconds total_points rest st')"

definition generate_asset_data ::
  "random_source \<Rightarrow> asset_config \<Rightarrow> real \<Rightarrow> int \<Rightarrow> int \<Rightarrow> nat
     \<Rightarrow> error + data_point list \<times> nat" where
  "generate_asset_data src asset start_time duration_hours interval_seconds n =
     (let fm = init_failure_mode asset
      in if interval_seconds = 0 then Inl ZeroDivisionError
         else (let total_points = (duration_hours * 3600) div interval_seconds
               in generate_loop src asset fm start_time interval_seconds total_points
                    [0..total_points - 1] ([], n)))"


subsection \<open>The fleet: all assets\<close>

text \<open>The loop \<^verbatim>\<open>for asset in assets\<close> of \<^verbatim>\<open>main\<close>; an exception raised while
  one asset is generated ends the run.\<close>

fun generate_all ::
  "random_source \<Rightarrow> asset_config list \<Rightarrow> real \<Rightarrow> int \<Rightarrow> int \<Rightarrow> data_point list \<times> nat
     \<Rightarrow> error + data_point list \<times> nat" where
  "generate_all src [] start_time duration_hours interval_seconds st = Inr st"
| "generate_all src (asset # rest) start_time duration_hours interval_seconds
       (all_data_points, n) =
     (case generate_asset_data src asset start_time duration_hours interval_seconds n of
        Inl e \<Rightarrow> Inl e
      | Inr (asset_data, n') \<Rightarrow>
          generate_all src rest start_time duration_hours interval_seconds
            (all_data_points @ asset_data, n'))"

subsection \<open>Delivery\<close>

text \<open>
  The Kafka producer is external. \<open>produce_raises k\<close> and \<open>flush_raises k\<close> say
  whether its \<open>k\<close>-th call to \<^verbatim>\<open>produce\<close> and to \<^verbatim>\<open>flush\<close> raises. The observable
  state of a run: the messages accepted (topic, key, value), the numbers of calls, the
  number of \<^verbatim>\<open>logger.error\<close> lines, and the arguments of \<^verbatim>\<open>time.sleep\<close> in order.
\<close>

record channel =
  produce_raises :: "nat \<Rightarrow> bool"
  flush_raises :: "nat \<Rightarrow> bool"

record world =
  produced :: "(string \<times> string \<times> data_point) list"
  produce_calls :: nat
  flush_calls :: nat
  error_log :: nat
  sleeps :: "real list"

definition produce ::
  "channel \<Rightarrow> string \<Rightarrow> data_point \<Rightarrow> world \<Rightarrow> error option \<times> world" where
  "produce ch topic data_point w =
     (if produce_raises ch (produce_calls w)
      then (Some KafkaException, w\<lparr>produce_calls := Suc (produce_calls w)\<rparr>)
      else (None, w\<lparr>produce_calls := Suc (produce_calls w),
                    produced := produced w @ [(topic, dp_asset_id data_point, data_point)]\<rparr>))"

definition flush :: "channel \<Rightarrow> world \<Rightarrow> error option \<times> world" where
  "flush ch w =
     (if flush_raises ch (flush_calls w)
      then (Some KafkaException, w\<lparr>flush_calls := Suc (flush_calls w)\<rparr>)
      else (None, w\<lparr>flush_calls := Suc (flush_calls w)\<rparr>))"

definition log_error :: "world \<Rightarrow> world" where
  "log_error w = w\<lparr>error_log := Suc (error_log w)\<rparr>"

definition sleep :: "real \<Rightarrow> world \<Rightarrow> world" where
  "sleep secs w = w\<lparr>sleeps := sleeps w @ [secs]\<rparr>"

text \<open>\<^verbatim>\<open>publish_to_kafka\<close>: the \<^verbatim>\<open>try\<close> block covers \<^verbatim>\<open>produce\<close> and the flush
  every 1000 messages; the final flush is outside it.\<close>

fun publish_loop :: "channel \<Rightarrow> string \<Rightarrow> (nat \<times> data_point) list \<Rightarrow> world \<Rightarrow> world" where
  "publish_loop ch topic [] w = w"
| "publish_loop ch topic ((i, data_point) # rest) w =
     (case produce ch topic data_point w of
        (Some e, w1) \<Rightarrow> publish_loop ch topic rest (log_error w1)
      | (None, w1) \<Rightarrow>
          (if i mod 1000 = 0
           then (case flush ch w1 of
                   (Some e, w2) \<Rightarrow> publish_loop ch topic rest (log_error w2)
                 | (None, w2) \<Rightarrow> publish_loop ch topic rest w2)
           else publish_loop ch topic rest w1))"

definition publish_to_kafka ::
  "channel \<Rightarrow> data_point list \<Rightarrow> string \<Rightarrow> world \<Rightarrow> error option \<times> world" where
  "publish_to_kafka ch data_points topic w =
     flush ch (publish_loop ch topic (enumerate 0 data_points) w)"

text \<open>The real-time branch of \<^verbatim>\<open>main\<close>, after the sort: no \<^verbatim>\<open>try\<close> around
  \<^verbatim>\<open>produce\<close>. \<open>last_ts\<close> starts as \<^verbatim>\<open>None\<close> and is tested with \<^verbatim>\<open>if last_ts:\<close>.\<close>

fun realtime_loop ::
  "channel \<Rightarrow> string \<Rightarrow> data_point list \<Rightarrow> int option \<Rightarrow> world \<Rightarrow> error option \<times> world" where
  "realtime_loop ch topic [] last_ts w = (None, w)"
| "realtime_loop ch topic (data_point # rest) last_ts w =
     (let w0 = (if truthy_int last_ts
                then (let sleep_time = of_int (ts data_point - the last_ts) / 1000
                      in if sleep_time > 0 then sleep (min sleep_time 60) w else w)
                else w)
      in case produce ch topic data_point w0 of
           (Some e, w1) \<Rightarrow> (Some e, w1)
         | (None, w1) \<Rightarrow> realtime_loop ch topic rest (Some (ts data_point)) w1)"

definition publish_realtime ::
  "channel \<Rightarrow> data_point list \<Rightarrow> string \<Rightarrow> world \<Rightarrow> error option \<times> world" where
  "publish_realtime ch all_data_points topic w =
     realtime_loop ch topic (sort_key ts all_data_points) None w"

text \<open>The pacing the real-time loop is meant to have, on the timestamps alone: before a
  send at \<open>t\<close> that follows a send at \<open>prev\<close>, sleep \<open>min((t - prev) / 1000, 60)\<close> seconds
  when that is positive.\<close>

fun paced_sleeps :: "int \<Rightarrow> int list \<Rightarrow> real list" where
  "paced_sleeps prev [] = []"
| "paced_sleeps prev (t # rest) =
     (if of_int (t - prev) / 1000 > (0 :: real) then [min (of_int (t - prev) / 1000) 60] else [])
       @ paced_sleeps t rest"

subsection \<open>The run\<close>

datatype outcome = Saved string "data_point list" | Published world

definition new_world :: world where
  "new_world = \<lparr>produced = [], produce_calls = 0, flush_calls = 0, error_log = 0, sleeps = []\<rparr>"

text \<open>\<^verbatim>\<open>main\<close> after argument parsing, with the asset list as a parameter.
  An uncaught exception is \<open>Inl\<close>.\<close>

definition run ::
  "random_source \<Rightarrow> channel \<Rightarrow> asset_config list \<Rightarrow> real \<Rightarrow> int \<Rightarrow> int \<Rightarrow> string \<Rightarrow> bool
     \<Rightarrow> string option \<Rightarrow> error + outcome" where
  "run src ch assets start_time duration_hours interval_seconds topic real_time output_file =
     (case generate_all src assets start_time duration_hours interval_seconds ([], 0) of
        Inl e \<Rightarrow> Inl e
      | Inr (all_data_points, n) \<Rightarrow>
          (if truthy_str output_file
           then Inr (Saved (the output_file) all_data_points)
           else (case (if real_time
                       then publish_realtime ch all_data_points topic new_world
                       else publish_to_kafka ch all_data_points topic new_world) of
                   (Some e, w) \<Rightarrow> Inl e
                 | (None, w) \<Rightarrow> Inr (Published w))))"

definition healthy :: "string \<Rightarrow> string \<Rightarrow> string \<Rightarrow> string \<Rightarrow> asset_config" where
  "healthy a p c v =
     \<lparr>asset_id = a, plant = p, asset_class = c, vendor = v, failure_mode = None,
      failure_start_hours = None, failure_severity = 1\<rparr>"

definition failing ::
  "string \<Rightarrow> string \<Rightarrow> string \<Rightarrow> string \<Rightarrow> string \<Rightarrow> real \<Rightarrow> real \<Rightarrow> asset_config" where
  "failing a p c v m h s =
     \<lparr>asset_id = a, plant = p, asset_class = c, vendor = v, failure_mode = Some m,
      failure_start_hours = Some h, failure_severity = s\<rparr>"

definition create_demo_assets :: "asset_config list" where
  "create_demo_assets =
     [healthy ''PLANT1_PUMP_SULZER_001'' ''PLANT1'' ''PUMP'' ''SULZER'',
      healthy ''PLANT1_PUMP_SULZER_002'' ''PLANT1'' ''PUMP'' ''SULZER'',
      healthy ''PLANT2_PUMP_GRUNDFOS_001'' ''PLANT2'' ''PUMP'' ''GRUNDFOS'',
      healthy ''PLANT2_COMPRESSOR_ATLAS_001'' ''PLANT2'' ''COMPRESSOR'' ''ATLAS'',
      healthy ''PLANT3_MOTOR_ABB_001'' ''PLANT3'' ''MOTOR'' ''ABB'',
      healthy ''PLANT3_MOTOR_ABB_002'' ''PLANT3'' ''MOTOR'' ''ABB'',
      healthy ''PLANT1_FAN_EBMPAPST_001'' ''PLANT1'' ''FAN'' ''EBMPAPST'',
      healthy ''PLANT2_FAN_EBMPAPST_001'' ''PLANT2'' ''FAN'' ''EBMPAPST'',
      failing ''PLANT1_PUMP_SULZER_003'' ''PLANT1'' ''PUMP'' ''SULZER'' ''bearing_wear'' 120 0.8,
      failing ''PLANT2_COMPRESSOR_ATLAS_002'' ''PLANT2'' ''COMPRESSOR'' ''ATLAS''
        ''misalignment'' 72 0.6,
      failing ''PLANT1_PUMP_GRUNDFOS_002'' ''PLANT1'' ''PUMP'' ''GRUNDFOS'' ''cavitation'' 48 0.7,
      failing ''PLANT3_MOTOR_SIEMENS_001'' ''PLANT3'' ''MOTOR'' ''SIEMENS'' ''bearing_wear'' 168 0.9,
      healthy ''PLANT3_PUMP_KSB_001'' ''PLANT3'' ''PUMP'' ''KSB'',
      healthy ''PLANT1_COMPRESSOR_INGERSOLL_001'' ''PLANT1'' ''COMPRESSOR'' ''INGERSOLL'',
      healthy ''PLANT2_MOTOR_WEG_001'' ''PLANT2'' ''MOTOR'' ''WEG'']"

text \<open>\<^verbatim>\<open>main\<close>: \<open>now\<close> is \<^verbatim>\<open>datetime.now()\<close> in seconds.\<close>

definition main ::
  "random_source \<Rightarrow> channel \<Rightarrow> real \<Rightarrow> int \<Rightarrow> int \<Rightarrow> string \<Rightarrow> bool \<Rightarrow> string option
     \<Rightarrow> error + outcome" where
  "main src ch now duration_hours interval_seconds topic real_time output_file =
     run src ch create_demo_assets (now - of_int duration_hours * 3600)
       duration_hours interval_seconds topic real_time output_file"


subsection \<open>Concrete inputs used in examples\<close>

definition fixed_source :: random_source where
  "fixed_source = \<lparr>gauss_at = (\<lambda>n. 0), random_at = (\<lambda>n. 1 / 2), index_at = (\<lambda>n. 0)\<rparr>"

definition saturating_source :: random_source where
  "saturating_source =
     \<lparr>gauss_at = (\<lambda>n. 100), random_at = (\<lambda>n. 1 / 2), index_at = (\<lambda>n. 0)\<rparr>"




definition first_fails :: channel where
  "first_fails = \<lparr>produce_raises = (\<lambda>k. k = 0), flush_raises = (\<lambda>k. False)\<rparr>"

definition reading_at :: "int \<Rightarrow> data_point" where
  "reading_at t =
     \<lparr>ts = t, dp_asset_id = ''PLANT1_PUMP_SULZER_001'', tag = ''bearing_temp_c'',
      dp_value = Some 60, q = GOOD\<rparr>"

definition topic0 :: string where
  "topic0 = ''facilis.raw.timeseries''"

definition two_sensors :: dict where
  "two_sensors = [(''vibration_vel_mm_s'', 5), (''ambient_temp_c'', 25)]"

section \<open>Failure modes\<close>

lemma map_entry_absent: "map_of xs k = None \<Longrightarrow> AList.map_entry k f xs = xs"
  by (induction xs) auto

lemma keys_map_entry: "map fst (AList.map_entry k f xs) = map fst xs"
  by (induction xs) auto

lemma map_of_map_entry_other:
  "k' \<noteq> k \<Longrightarrow> map_of (AList.map_entry k f xs) k' = map_of xs k'"
  by (induction xs) auto

lemma map_of_map_entry_same:
  "map_of (AList.map_entry k f xs) k = map_option f (map_of xs k)"
  by (induction xs) auto

lemma dict_copy_eq: "dict_copy h r = (length h, h @ [h ! r])"
  by (simp add: dict_copy_def)

lemma dict_contains_new: "dict_contains (h @ [d]) (length h) k = (map_of d k \<noteq> None)"
  by (simp add: dict_contains_def)

lemma dict_modify_new: "dict_modify (h @ [d]) (length h) k f = h @ [AList.map_entry k f d]"
  by (simp add: dict_modify_def)

text \<open>Each subclass returns a fresh object at the end of the heap; \<open>map_entry\<close> on a
  key that is absent changes nothing, which makes the \<^verbatim>\<open>if k in modified\<close> tests
  disappear.\<close>

lemma apply_bearing:
  "apply_failure src (BearingWearFailure s) t r (h, n) =
     (length h,
      h @ [AList.map_entry ''bearing_temp_c'' (\<lambda>v. v + (10 + 20 * min 1 (t / 3600 / 240)) * s)
            (AList.map_entry ''vibration_vel_mm_s''
               (\<lambda>v. v + (5 + 10 * min 1 (t / 3600 / 240)) * s) (h ! r))], n)"
  by (simp add: dict_copy_eq dict_contains_new dict_modify_new map_entry_absent Let_def)

lemma apply_misalignment:
  "apply_failure src (MisalignmentFailure s) t r (h, n) =
     (length h,
      h @ [AList.map_entry ''bearing_temp_c'' (\<lambda>v. v + 5 * s)
            (AList.map_entry ''vibration_vel_mm_s'' (\<lambda>v. v + 3 * s) (h ! r))], n)"
  by (simp add: dict_copy_eq dict_contains_new dict_modify_new map_entry_absent Let_def)

lemma apply_cavitation:
  "\<exists>f g n'. apply_failure src (CavitationFailure s) t r (h, n) =
     (length h,
      h @ [AList.map_entry ''motor_current_a'' g
            (AList.map_entry ''vibration_vel_mm_s'' f
              (AList.map_entry ''discharge_pressure_bar'' (\<lambda>v. v * (1 - 0.3 * s)) (h ! r)))],
      n')"
  apply (simp add: dict_copy_eq dict_contains_new dict_modify_new Let_def random_uniform_def
      split: prod.splits)
  apply (auto simp: map_entry_absent map_of_map_entry split: option.splits)
  done

lemma apply_base: "apply_failure src (FailureMode s) t r (h, n) = (r, h, n)"
  by simp

declare apply_failure.simps [simp del]



lemma apply_values_bearing:
  "apply_values src (BearingWearFailure s) t d n =
     (AList.map_entry ''bearing_temp_c'' (\<lambda>v. v + (10 + 20 * min 1 (t / 3600 / 240)) * s)
       (AList.map_entry ''vibration_vel_mm_s''
          (\<lambda>v. v + (5 + 10 * min 1 (t / 3600 / 240)) * s) d), n)"
  by (simp add: apply_values_def apply_bearing)

text \<open>
  C7. \<open>BearingWearFailure.apply\<close> with severity \<open>s\<close>, \<open>h = timestamp / 3600\<close> hours
  after onset: once \<open>h \<ge> 240\<close> the vibration entry grows by exactly \<open>15 * s\<close> and the
  bearing temperature entry by exactly \<open>30 * s\<close>, whatever \<open>h\<close> is; for \<open>h < 240\<close>
  they grow by \<open>(5 + 10 * h / 240) * s\<close> and \<open>(10 + 20 * h / 240) * s\<close>. An entry that
  is absent stays absent.
\<close>

theorem bearing_wear_terms:
  "(240 \<le> timestamp / 3600 \<longrightarrow>
      map_of (fst (apply_values src (BearingWearFailure s) timestamp d n)) ''vibration_vel_mm_s''
        = map_option (\<lambda>v. v + 15 * s) (map_of d ''vibration_vel_mm_s'')
    \<and> map_of (fst (apply_values src (BearingWearFailure s) timestamp d n)) ''bearing_temp_c''
        = map_option (\<lambda>v. v + 30 * s) (map_of d ''bearing_temp_c''))
 \<and> (timestamp / 3600 < 240 \<longrightarrow>
      map_of (fst (apply_values src (BearingWearFailure s) timestamp d n)) ''vibration_vel_mm_s''
        = map_option (\<lambda>v. v + (5 + 10 * (timestamp / 3600) / 240) * s)
            (map_of d ''vibration_vel_mm_s'')
    \<and> map_of (fst (apply_values src (BearingWearFailure s) timestamp d n)) ''bearing_temp_c''
        = map_option (\<lambda>v. v + (10 + 20 * (timestamp / 3600) / 240) * s)
            (map_of d ''bearing_temp_c''))"
  by (simp add: apply_values_bearing map_of_map_entry_same map_of_map_entry_other min_def)

theorem bearing_wear_terms_witness:
  "240 \<le> (1080000 :: real) / 3600
   \<and> map_of (fst (apply_values fixed_source (BearingWearFailure (1 / 2)) 1080000
                   [(''vibration_vel_mm_s'', 5), (''bearing_temp_c'', 60)] 0))
        ''vibration_vel_mm_s'' = Some (25 / 2)
   \<and> map_of (fst (apply_values fixed_source (BearingWearFailure (1 / 2)) 1080000
                   [(''vibration_vel_mm_s'', 5), (''bearing_temp_c'', 60)] 0))
        ''bearing_temp_c'' = Some 75
   \<and> (432000 :: real) / 3600 < 240
   \<and> map_of (fst (apply_values fixed_source (BearingWearFailure (1 / 2)) 432000
                   [(''vibration_vel_mm_s'', 5), (''bearing_temp_c'', 60)] 0))
        ''vibration_vel_mm_s'' = Some 10
   \<and> map_of (fst (apply_values fixed_source (BearingWearFailure (1 / 2)) 432000
                   [(''vibration_vel_mm_s'', 5), (''bearing_temp_c'', 60)] 0))
        ''bearing_temp_c'' = Some 70"
  using
    bearing_wear_terms [of 1080000 fixed_source "1 / 2"
      "[(''vibration_vel_mm_s'', 5), (''bearing_temp_c'', 60)]" 0]
    bearing_wear_terms [of 432000 fixed_source "1 / 2"
      "[(''vibration_vel_mm_s'', 5), (''bearing_temp_c'', 60)]" 0]
  by simp

text \<open>
  C9. For every failure class (the base class, bearing wear, misalignment, cavitation),
  \<open>apply\<close> leaves the dict it was given as it was (and every other object that
  existed before the call), and returns a dict with the same keys in which every key
  the class does not recognise has the value it had in the input.
\<close>

theorem apply_failure_frame:
  assumes "base_values < length h"
    and "apply_failure src fm timestamp base_values (h, n) = (result, h', n')"
  shows "h' ! base_values = h ! base_values
       \<and> (\<forall>a<length h. h' ! a = h ! a)
       \<and> result < length h'
       \<and> map fst (h' ! result) = map fst (h ! base_values)
       \<and> (\<forall>k. k \<notin> set (recognized fm) \<longrightarrow>
             map_of (h' ! result) k = map_of (h ! base_values) k)"
proof (cases fm)
  case (FailureMode s)
  with assms show ?thesis by (auto simp: apply_base)
next
  case (BearingWearFailure s)
  with assms show ?thesis
    by (auto simp: apply_bearing nth_append keys_map_entry map_of_map_entry_other)
next
  case (MisalignmentFailure s)
  with assms show ?thesis
    by (auto simp: apply_misalignment nth_append keys_map_entry map_of_map_entry_other)
next
  case (CavitationFailure s)
  obtain f g m where
    "apply_failure src (CavitationFailure s) timestamp base_values (h, n) =
       (length h,
        h @ [AList.map_entry ''motor_current_a'' g
              (AList.map_entry ''vibration_vel_mm_s'' f
                (AList.map_entry ''discharge_pressure_bar'' (\<lambda>v. v * (1 - 0.3 * s))
                   (h ! base_values)))], m)"
    using apply_cavitation by blast
  with assms CavitationFailure show ?thesis
    by (auto simp: nth_append keys_map_entry map_of_map_entry_other)
qed

theorem apply_failure_frame_witness:
  "(0 :: nat) < length [two_sensors]
   \<and> apply_failure fixed_source (CavitationFailure 1) 3600 0 ([two_sensors], 0) =
       (1, [two_sensors, [(''vibration_vel_mm_s'', 15 / 2), (''ambient_temp_c'', 25)]], 1)
   \<and> [two_sensors, [(''vibration_vel_mm_s'', 15 / 2), (''ambient_temp_c'', 25)]] ! 0
       = two_sensors
   \<and> map_of ([two_sensors, [(''vibration_vel_mm_s'', 15 / 2), (''ambient_temp_c'', 25)]] ! 1)
       ''ambient_temp_c'' = map_of ([two_sensors] ! 0) ''ambient_temp_c''"
proof -
  have len: "(0 :: nat) < length [two_sensors]" by simp
  have run: "apply_failure fixed_source (CavitationFailure 1) 3600 0 ([two_sensors], 0) =
       (1, [two_sensors, [(''vibration_vel_mm_s'', 15 / 2), (''ambient_temp_c'', 25)]], 1)"
    by (simp add: apply_failure.simps dict_copy_def dict_contains_def dict_modify_def
        random_uniform_def fixed_source_def two_sensors_def)
  from apply_failure_frame [OF len run] len run show ?thesis
    by (simp add: two_sensors_def)
qed

section \<open>Base values\<close>

lemma set_update_subset: "set (AList.update k v xs) \<subseteq> insert (k, v) (set xs)"
  by (induction xs) auto

lemma update_fresh: "k \<notin> fst ` set xs \<Longrightarrow> AList.update k v xs = xs @ [(k, v)]"
  by (induction xs) auto

lemma base_values_loop_snd:
  "snd (base_values_loop src d w cfg (vals, n)) = n + length cfg"
  by (induction cfg arbitrary: vals n) (auto simp: random_gauss_def Let_def)

lemma base_values_loop_keys:
  "distinct (map fst vals @ map fst cfg) \<Longrightarrow>
   map fst (fst (base_values_loop src d w cfg (vals, n))) = map fst vals @ map fst cfg"
proof (induction cfg arbitrary: vals n)
  case Nil
  then show ?case by simp
next
  case (Cons c cfg)
  obtain k p where c: "c = (k, p)" by (cases c)
  from Cons.prems c have fresh: "k \<notin> fst ` set vals" by auto
  from Cons.prems c have d: "distinct (map fst (vals @ [(k, v)]) @ map fst cfg)" for v
    by auto
  show ?case
    using Cons.IH [OF d] c fresh
    by (simp add: random_gauss_def Let_def update_fresh)
qed

lemma base_values_loop_range:
  assumes "\<forall>(k, p)\<in>set cfg. fst (range_p p) \<le> snd (range_p p)"
    and "(sensor, v) \<in> set (fst (base_values_loop src d w cfg (vals, n)))"
  shows "(sensor, v) \<in> set vals \<or>
         (\<exists>p. (sensor, p) \<in> set cfg \<and> fst (range_p p) \<le> v \<and> v \<le> snd (range_p p))"
  using assms
proof (induction cfg arbitrary: vals n)
  case Nil
  then show ?case by simp
next
  case (Cons c cfg)
  obtain k p where c: "c = (k, p)" by (cases c)
  define v1 where "v1 = max (fst (range_p p)) (min (snd (range_p p))
     (base p * d * w + (0 + gauss_at src n * noise p)))"
  from Cons.prems(1) c have ok: "fst (range_p p) \<le> snd (range_p p)" by auto
  from Cons.prems(1) have rest: "\<forall>(k, p)\<in>set cfg. fst (range_p p) \<le> snd (range_p p)" by auto
  from Cons.prems(2) c
  have "(sensor, v) \<in> set (fst (base_values_loop src d w cfg (AList.update k v1 vals, Suc n)))"
    by (simp add: random_gauss_def Let_def v1_def)
  from Cons.IH [OF rest this]
  consider "(sensor, v) \<in> set (AList.update k v1 vals)"
    | "\<exists>p. (sensor, p) \<in> set cfg \<and> fst (range_p p) \<le> v \<and> v \<le> snd (range_p p)"
    by blast
  then show ?case
  proof cases
    case 1
    with set_update_subset [of k v1 vals] have "(sensor, v) = (k, v1) \<or> (sensor, v) \<in> set vals"
      by auto
    then show ?thesis
    proof
      assume "(sensor, v) = (k, v1)"
      with ok c have "(sensor, p) \<in> set (c # cfg) \<and> fst (range_p p) \<le> v \<and> v \<le> snd (range_p p)"
        by (auto simp: v1_def)
      then show ?thesis by blast
    qed simp
  next
    case 2
    then show ?thesis by auto
  qed
qed

lemma config_for_cases:
  "config_for cls \<in> {pump_config, compressor_config, motor_config, fan_config}"
  by (auto simp: config_for_def sensor_configs_def split: option.splits if_splits)

lemma config_for_distinct: "distinct (map fst (config_for cls))"
  using config_for_cases [of cls]
  by (auto simp: pump_config_def compressor_config_def motor_config_def fan_config_def)

lemma config_for_ranges: "\<forall>(k, p)\<in>set (config_for cls). fst (range_p p) \<le> snd (range_p p)"
  using config_for_cases [of cls]
  by (auto simp: pump_config_def compressor_config_def motor_config_def fan_config_def)

lemma generate_base_values_keys:
  "map fst (fst (generate_base_values src cls timestamp n)) = map fst (config_for cls)"
  using base_values_loop_keys [of "[]" "config_for cls"] config_for_distinct [of cls]
  by (simp add: generate_base_values_def Let_def)

text \<open>
  C6. Whatever the asset class (an unknown one falls back to the pump table), the time
  and the noise drawn, \<open>generate_base_values\<close> returns one value per sensor of the
  class, and each value lies in the inclusive range of its sensor.
\<close>

theorem base_values_in_range:
  "map fst (fst (generate_base_values src cls timestamp n)) = map fst (config_for cls)
   \<and> (\<forall>(sensor, v)\<in>set (fst (generate_base_values src cls timestamp n)).
         \<exists>p. map_of (config_for cls) sensor = Some p
              \<and> fst (range_p p) \<le> v \<and> v \<le> snd (range_p p))"
proof -
  have "\<exists>p. map_of (config_for cls) sensor = Some p \<and> fst (range_p p) \<le> v \<and> v \<le> snd (range_p p)"
    if "(sensor, v) \<in> set (fst (generate_base_values src cls timestamp n))" for sensor v
  proof -
    from that obtain p where "(sensor, p) \<in> set (config_for cls)"
      and "fst (range_p p) \<le> v" and "v \<le> snd (range_p p)"
      using base_values_loop_range [OF config_for_ranges, of sensor v src _ _ cls "[]" n]
      by (auto simp: generate_base_values_def Let_def)
    moreover from this(1) have "map_of (config_for cls) sensor = Some p"
      using config_for_distinct by (simp add: map_of_eq_Some_iff)
    ultimately show ?thesis by blast
  qed
  with generate_base_values_keys show ?thesis by auto
qed

section \<open>Data points and the generation loop\<close>



lemma data_points_loop_length:
  "length (fst (data_points_loop src asset t vals (dps, n))) = length dps + length vals"
proof (induction vals arbitrary: dps n)
  case Nil
  then show ?case by simp
next
  case (Cons kv vals)
  then show ?case by (cases kv) (simp split: prod.splits)
qed






lemma generate_step_zero:
  "total_points div 10 = 0 \<Longrightarrow>
   generate_step src asset fm start_time interval_seconds total_points i st = Inl ZeroDivisionError"
  by (simp add: generate_step_def Let_def split: prod.splits)




lemma generate_asset_data_small:
  assumes "interval_seconds \<noteq> 0"
    and "0 < (duration_hours * 3600) div interval_seconds"
    and "(duration_hours * 3600) div interval_seconds < 10"
  shows "generate_asset_data src asset start_time duration_hours interval_seconds n
           = Inl ZeroDivisionError"
proof -
  let ?t = "(duration_hours * 3600) div interval_seconds"
  from assms(2) have "[0..?t - 1] = 0 # [1..?t - 1]" by (simp add: upto.simps)
  moreover from assms(2,3) have "?t div 10 = 0" by simp
  ultimately show ?thesis using assms(1)
    by (simp add: generate_asset_data_def Let_def generate_step_zero)
qed

text \<open>
  C1. One healthy pump, one hour, one sample per hour: \<open>total_points = 1\<close>, so the
  divisor \<open>total_points // 10\<close> of the progress log is zero and the first iteration
  raises \<open>ZeroDivisionError\<close> after its five data points were appended; nothing is
  returned. (The same holds whenever \<open>0 < total_points < 10\<close>, see
  \<open>generate_asset_data_small\<close>; for \<open>total_points \<ge> 10\<close> or \<open>\<le> 0\<close> the call returns
  \<open>total_points\<close> times the number of sensors, see \<open>generate_asset_data_ok\<close>.)
\<close>

theorem single_sample_raises:
  "generate_asset_data src (healthy a p ''PUMP'' v) start_time 1 3600 n = Inl ZeroDivisionError"
  by (rule generate_asset_data_small) simp_all

lemma make_data_point_cong:
  "asset_id a = asset_id b \<Longrightarrow> make_data_point src a = make_data_point src b"
  by (intro ext) (simp add: make_data_point_def)

lemma data_points_loop_cong:
  "asset_id a = asset_id b \<Longrightarrow>
   data_points_loop src a t vals st = data_points_loop src b t vals st"
proof (induction vals arbitrary: st)
  case Nil
  then show ?case by (cases st) simp
next
  case (Cons kv vals)
  then show ?case by (cases st; cases kv) (simp add: make_data_point_cong [of a b])
qed

lemma generate_loop_healthy_cong:
  assumes "asset_id a = asset_id b" and "asset_class a = asset_class b"
  shows "generate_loop src a None start_time interval_seconds total_points idxs st
       = generate_loop src b None start_time interval_seconds total_points idxs st"
proof (induction idxs arbitrary: st)
  case Nil
  then show ?case by simp
next
  case (Cons i idxs)
  have "generate_step src a None start_time interval_seconds total_points i st
      = generate_step src b None start_time interval_seconds total_points i st"
    using assms by (simp add: generate_step_def step_values_def data_points_loop_cong [of a b])
  with Cons.IH show ?case by (simp split: sum.splits)
qed

text \<open>
  C2. An asset configured with a failure mode and \<open>failure_start_hours = 0\<close>: the test
  \<^verbatim>\<open>if asset.failure_mode and asset.failure_start_hours\<close> is false for \<open>0\<close>, no
  failure object is created, and the data generated is that of the same asset with no
  failure configured, at every step.
\<close>

theorem onset_zero_is_healthy:
  "generate_asset_data src (failing a p c v m 0 s) start_time duration_hours interval_seconds n
     = generate_asset_data src (healthy a p c v) start_time duration_hours interval_seconds n"
proof -
  have "init_failure_mode (failing a p c v m 0 s) = None"
    by (simp add: init_failure_mode_def failing_def)
  moreover have "init_failure_mode (healthy a p c v) = None"
    by (simp add: init_failure_mode_def healthy_def)
  ultimately show ?thesis
    using generate_loop_healthy_cong [of "failing a p c v m 0 s" "healthy a p c v"]
    by (simp add: generate_asset_data_def failing_def healthy_def)
qed


lemma saturated_pump_values:
  "generate_base_values saturating_source ''PUMP'' 604800 n =
     ([(''vibration_vel_mm_s'', 50), (''bearing_temp_c'', 120), (''motor_current_a'', 150),
       (''discharge_pressure_bar'', 30), (''ambient_temp_c'', 40)], Suc (Suc (Suc (Suc (Suc n)))))"
  by (simp add: generate_base_values_def config_for_def sensor_configs_def lower_def
      lower_char_def fmod_def pump_config_def random_gauss_def saturating_source_def)






theorem base_values_in_range_witness:
  "map fst (fst (generate_base_values saturating_source ''PUMP'' 604800 0))
     = map fst (config_for ''PUMP'')
   \<and> (''bearing_temp_c'', 120) \<in> set (fst (generate_base_values saturating_source ''PUMP'' 604800 0))
   \<and> (\<exists>p. map_of (config_for ''PUMP'') ''bearing_temp_c'' = Some p
           \<and> fst (range_p p) \<le> 120 \<and> 120 \<le> snd (range_p p))"
proof -
  have "(''bearing_temp_c'', 120) \<in> set (fst (generate_base_values saturating_source ''PUMP'' 604800 0))"
    by (simp add: saturated_pump_values)
  with base_values_in_range [of saturating_source "''PUMP''" 604800 0] show ?thesis
    by blast
qed


section \<open>The run and its delivery\<close>









text \<open>
  C5. Two records, and a producer whose first \<open>produce\<close> call raises. The real-time
  loop has no \<^verbatim>\<open>try\<close>: the exception leaves the loop after the first call and the
  second record is never sent. The bulk path logs the error and sends the second record.
\<close>

theorem realtime_publish_error_aborts:
  "publish_realtime first_fails [reading_at 1000, reading_at 6000] topic0 new_world
     = (Some KafkaException, new_world\<lparr>produce_calls := 1\<rparr>)
   \<and> publish_to_kafka first_fails [reading_at 1000, reading_at 6000] topic0 new_world
     = (None, \<lparr>produced = [(topic0, ''PLANT1_PUMP_SULZER_001'', reading_at 6000)],
               produce_calls = 2, flush_calls = 1, error_log = 1, sleeps = []\<rparr>)"
  by (simp add: publish_realtime_def publish_to_kafka_def produce_def flush_def log_error_def
      first_fails_def new_world_def reading_at_def)


lemma bulk_survives_produce_errors:
  "(\<And>k. \<not> flush_raises ch k) \<Longrightarrow> fst (publish_to_kafka ch data_points topic w) = None"
  by (simp add: publish_to_kafka_def flush_def)

text \<open>What does hold of the real-time loop: records go out in the order of the sort,
  and every sleep is positive and at most 60 seconds.\<close>

lemma realtime_loop_order:
  assumes "\<And>k. \<not> produce_raises ch k"
  shows "fst (realtime_loop ch topic dps last_ts w) = None
       \<and> produced (snd (realtime_loop ch topic dps last_ts w))
           = produced w @ map (\<lambda>dp. (topic, dp_asset_id dp, dp)) dps"
proof (induction dps arbitrary: last_ts w)
  case Nil
  then show ?case by simp
next
  case (Cons dp dps)
  show ?case
    using assms Cons.IH
    by (simp add: produce_def sleep_def Let_def)
qed

lemma publish_realtime_order:
  assumes "\<And>k. \<not> produce_raises ch k"
  shows "produced (snd (publish_realtime ch dps topic new_world))
           = map (\<lambda>dp. (topic, dp_asset_id dp, dp)) (sort_key ts dps)"
    and "sorted (map (ts \<circ> snd \<circ> snd) (produced (snd (publish_realtime ch dps topic new_world))))"
proof -
  show "produced (snd (publish_realtime ch dps topic new_world))
           = map (\<lambda>dp. (topic, dp_asset_id dp, dp)) (sort_key ts dps)"
    using realtime_loop_order [OF assms, of topic "sort_key ts dps" None new_world]
    by (simp add: publish_realtime_def new_world_def)
  then show "sorted (map (ts \<circ> snd \<circ> snd)
      (produced (snd (publish_realtime ch dps topic new_world))))"
    by (simp add: comp_def)
qed

lemma realtime_loop_sleeps:
  assumes "\<forall>s\<in>set (sleeps w). 0 < s \<and> s \<le> 60"
  shows "\<forall>s\<in>set (sleeps (snd (realtime_loop ch topic dps last_ts w))). 0 < s \<and> s \<le> 60"
  using assms
proof (induction dps arbitrary: last_ts w)
  case Nil
  then show ?case by simp
next
  case (Cons dp dps)
  define w0 where "w0 = (if truthy_int last_ts
                then (let sleep_time = of_int (ts dp - the last_ts) / 1000
                      in if sleep_time > 0 then sleep (min sleep_time 60) w else w)
                else w)"
  have w0: "\<forall>s\<in>set (sleeps w0). 0 < s \<and> s \<le> 60"
    using Cons.prems by (auto simp: w0_def sleep_def Let_def)
  show ?case
  proof (cases "produce_raises ch (produce_calls w0)")
    case True
    with w0 show ?thesis
      by (simp add: produce_def flip: w0_def)
  next
    case False
    have "\<forall>s\<in>set (sleeps (w0\<lparr>produce_calls := Suc (produce_calls w0),
        produced := produced w0 @ [(topic, dp_asset_id dp, dp)]\<rparr>)). 0 < s \<and> s \<le> 60"
      using w0 by simp
    from Cons.IH [OF this] False show ?thesis
      by (simp add: produce_def flip: w0_def)
  qed
qed

text \<open>When no timestamp is zero, the sleeps are exactly those of \<open>paced_sleeps\<close> on the
  sorted timestamps.\<close>

lemma realtime_loop_sleeps_exact:
  assumes "\<And>k. \<not> produce_raises ch k"
  shows "\<forall>dp\<in>set dps. ts dp \<noteq> 0 \<Longrightarrow> prev \<noteq> 0 \<Longrightarrow>
         sleeps (snd (realtime_loop ch topic dps (Some prev) w))
           = sleeps w @ paced_sleeps prev (map ts dps)"
proof (induction dps arbitrary: prev w)
  case Nil
  then show ?case by simp
next
  case (Cons dp dps)
  from Cons.prems have "ts dp \<noteq> 0" and "\<forall>dp\<in>set dps. ts dp \<noteq> 0" by auto
  with Cons.IH [of "ts dp"] Cons.prems(2) assms show ?case
    by (simp add: produce_def sleep_def Let_def)
qed

lemma publish_realtime_sleeps:
  assumes "\<And>k. \<not> produce_raises ch k" and "\<forall>dp\<in>set dps. ts dp \<noteq> 0"
  shows "sleeps (snd (publish_realtime ch dps topic new_world))
           = (case map ts (sort_key ts dps) of [] \<Rightarrow> [] | t # rest \<Rightarrow> paced_sleeps t rest)"
proof (cases "sort_key ts dps")
  case Nil
  then show ?thesis by (simp add: publish_realtime_def new_world_def)
next
  case (Cons dp rest)
  have "set (sort_key ts dps) = set dps" by simp
  with assms(2) Cons have nz: "ts dp \<noteq> 0" "\<forall>dp\<in>set rest. ts dp \<noteq> 0" by auto
  from realtime_loop_sleeps_exact [OF assms(1) nz(2) nz(1)] assms(1) Cons show ?thesis
    by (simp add: publish_realtime_def new_world_def produce_def)
qed

end
